theory Spec2Isabelle
  imports Complex_Main "HOL-Library.Sublist"
begin

section \<open>Python values shared by the script and by the code it installs\<close>

text \<open>
  \<^verbatim>\<open>CLAUDE_EXECUTE_NOW.py\<close> is a Python script that rewrites three files of a service
  (\<^verbatim>\<open>app/services/infra.py\<close>, \<^verbatim>\<open>app/main.py\<close>, \<^verbatim>\<open>app/metrics.py\<close>). Two of the
  files are written from string templates that hold the Python code of the service; the
  theory models both the script (sections 2 to 5) and the code inside the templates
  (sections 6 to 8).

  A Python \<^verbatim>\<open>str\<close> is a \<^typ>\<open>string\<close>; a character stands for a code point below 256.
  An exception is a value: its class and the text \<^verbatim>\<open>str(e)\<close> gives. A computation that
  may raise returns \<open>exn + 'a\<close>, \<open>Inl\<close> the exception raised.
\<close>

datatype pyclass =
    FileNotFoundError
  | ValueError
  | IndexError
  | CircuitBreakerOpen
  | OtherException string
  | BaseOnly string

datatype exn = Exn (cls: pyclass) (msg: string)

type_synonym 'a res = "exn + 'a"

text \<open>
  \<^verbatim>\<open>except Exception\<close> catches every class but the ones that derive from
  \<^verbatim>\<open>BaseException\<close> alone (\<^verbatim>\<open>KeyboardInterrupt\<close>, \<^verbatim>\<open>SystemExit\<close>,
  \<^verbatim>\<open>asyncio.CancelledError\<close>), here \<open>BaseOnly\<close>.
\<close>

fun is_Exception :: "exn \<Rightarrow> bool" where
  "is_Exception (Exn (BaseOnly _) _) = False"
| "is_Exception (Exn _ _) = True"

definition unlines :: "string list \<Rightarrow> string" where
  "unlines ls = concat (map (\<lambda>l. l @ [CHR 10]) ls)"

text \<open>\<^verbatim>\<open>sub in s\<close> on strings.\<close>

fun contains :: "string \<Rightarrow> string \<Rightarrow> bool" where
  "contains sub [] = (sub = [])"
| "contains sub (x # xs) = (prefix sub (x # xs) \<or> contains sub xs)"

text \<open>
  \<^verbatim>\<open>str.isspace\<close> on a code point below 256; the class \<^verbatim>\<open>\s\<close> of \<^verbatim>\<open>re\<close> on a
  \<^verbatim>\<open>str\<close> pattern and \<^verbatim>\<open>str.strip()\<close> use the same set.
\<close>

definition is_space :: "char \<Rightarrow> bool" where
  "is_space c = (let n = (of_char c :: nat) in
     (9 \<le> n \<and> n \<le> 13) \<or> (28 \<le> n \<and> n \<le> 32) \<or> n = 133 \<or> n = 160)"

definition is_digit :: "char \<Rightarrow> bool" where
  "is_digit c = (let n = (of_char c :: nat) in 48 \<le> n \<and> n \<le> 57)"

definition strip :: "string \<Rightarrow> string" where
  "strip s = rev (dropWhile is_space (rev (dropWhile is_space s)))"

text \<open>\<^verbatim>\<open>s.split("\n")\<close>: the pieces between line feeds, the last one included.\<close>

fun split_nl :: "string \<Rightarrow> string list" where
  "split_nl [] = [[]]"
| "split_nl (c # cs) =
     (if c = CHR 10 then [] # split_nl cs
      else (case split_nl cs of l # ls \<Rightarrow> (c # l) # ls | [] \<Rightarrow> [[c]]))"

text \<open>\<^verbatim>\<open>str(n)\<close> for a natural number and \<^verbatim>\<open>int(s)\<close> for a string of decimal digits.\<close>

definition digit_char :: "nat \<Rightarrow> char" where
  "digit_char d = char_of (48 + d)"

fun str_of_nat :: "nat \<Rightarrow> string" where
  "str_of_nat n = (if n < 10 then [digit_char n] else str_of_nat (n div 10) @ [digit_char (n mod 10)])"

definition int_of_digits :: "string \<Rightarrow> nat" where
  "int_of_digits s = foldl (\<lambda>acc c. 10 * acc + (of_char c - 48)) 0 s"

text \<open>
  \<^verbatim>\<open>os.path.join(a, b)\<close> for two components: an absolute \<open>b\<close> replaces \<open>a\<close>, otherwise
  the two are joined by one slash unless \<open>a\<close> is empty or ends with one.
\<close>

definition path_join :: "string \<Rightarrow> string \<Rightarrow> string" where
  "path_join a b =
     (if prefix ''/'' b then b
      else if a = [] \<or> last a = CHR ''/'' then a @ b
      else a @ ''/'' @ b)"

section \<open>The fragment of \<^verbatim>\<open>re\<close> the script uses\<close>

text \<open>
  Every pattern of the script is a sequence of literals and of quantified one-character
  classes. \<^verbatim>\<open>re\<close> matches by backtracking: a greedy quantifier tries the longest
  repetition first, a lazy one (\<^verbatim>\<open>+?\<close>, \<^verbatim>\<open>*?\<close>) the shortest, and the first
  alternative that lets the rest of the pattern match wins. No pattern contains \<^verbatim>\<open>.\<close>,
  so the flag \<^verbatim>\<open>re.DOTALL\<close> changes nothing and is not a parameter here.
\<close>

datatype cls = Not_chr char | Space | Digit | Any_chr

fun in_cls :: "cls \<Rightarrow> char \<Rightarrow> bool" where
  "in_cls (Not_chr d) c = (c \<noteq> d)"
| "in_cls Space c = is_space c"
| "in_cls Digit c = is_digit c"
| "in_cls Any_chr c = True"

datatype item = Lit string | StarG cls | PlusG cls | StarL cls | PlusL cls

text \<open>
  \<open>rmatch p s\<close> matches the pattern \<open>p\<close> at the start of \<open>s\<close>. On success it returns,
  for each item of \<open>p\<close> in order, the text that remained after that item matched; the last
  entry is what follows the match.
\<close>

function rmatch :: "item list \<Rightarrow> string \<Rightarrow> string list option" where
  "rmatch [] s = Some []"
| "rmatch (Lit l # r) s =
     (if prefix l s then map_option (Cons (drop (length l) s)) (rmatch r (drop (length l) s))
      else None)"
| "rmatch (StarG c # r) [] = map_option (Cons []) (rmatch r [])"
| "rmatch (StarG c # r) (x # xs) =
     (if in_cls c x then
        (case rmatch (StarG c # r) xs of
           Some t \<Rightarrow> Some t
         | None \<Rightarrow> map_option (Cons (x # xs)) (rmatch r (x # xs)))
      else map_option (Cons (x # xs)) (rmatch r (x # xs)))"
| "rmatch (PlusG c # r) [] = None"
| "rmatch (PlusG c # r) (x # xs) = (if in_cls c x then rmatch (StarG c # r) xs else None)"
| "rmatch (StarL c # r) [] = map_option (Cons []) (rmatch r [])"
| "rmatch (StarL c # r) (x # xs) =
     (case rmatch r (x # xs) of
        Some t \<Rightarrow> Some ((x # xs) # t)
      | None \<Rightarrow> if in_cls c x then rmatch (StarL c # r) xs else None)"
| "rmatch (PlusL c # r) [] = None"
| "rmatch (PlusL c # r) (x # xs) = (if in_cls c x then rmatch (StarL c # r) xs else None)"
  by pat_completeness auto
termination
  by (relation "measure (\<lambda>(p, s). length p + length s)") auto

text \<open>The text that follows a match at the start of \<open>s\<close>.\<close>

definition match_end :: "item list \<Rightarrow> string \<Rightarrow> string option" where
  "match_end p s = map_option (\<lambda>rs. last (s # rs)) (rmatch p s)"

text \<open>
  \<^verbatim>\<open>re.search\<close>: the leftmost position where the pattern matches. The result holds the
  text from that position on and the remainders \<open>rmatch\<close> gives there.
\<close>

fun re_search :: "item list \<Rightarrow> string \<Rightarrow> (string \<times> string list) option" where
  "re_search p [] = map_option (Pair []) (rmatch p [])"
| "re_search p (x # xs) =
     (case rmatch p (x # xs) of
        Some rs \<Rightarrow> Some (x # xs, rs)
      | None \<Rightarrow> re_search p xs)"

text \<open>
  \<^verbatim>\<open>match.group(k)\<close> when group \<open>k\<close> encloses exactly the item of index \<open>i\<close>: the text
  between the remainder before that item and the remainder after it.
\<close>

definition item_text :: "string \<times> string list \<Rightarrow> nat \<Rightarrow> string" where
  "item_text m i =
     (let pre = (fst m # snd m) ! i; post = snd m ! i
      in take (length pre - length post) pre)"

text \<open>
  \<^verbatim>\<open>re.sub(pattern, repl, s)\<close> with a replacement that holds no backslash: every
  non-overlapping match, from the left, is replaced by \<open>repl\<close>. After an empty match the
  next character is copied, as \<^verbatim>\<open>re\<close> does.
\<close>

function re_sub :: "item list \<Rightarrow> string \<Rightarrow> string \<Rightarrow> string" where
  "re_sub p repl [] = (case rmatch p [] of Some _ \<Rightarrow> repl | None \<Rightarrow> [])"
| "re_sub p repl (x # xs) =
     (case match_end p (x # xs) of
        None \<Rightarrow> x # re_sub p repl xs
      | Some rest \<Rightarrow>
          if length rest < length (x # xs) then repl @ re_sub p repl rest
          else repl @ x # re_sub p repl xs)"
  by pat_completeness auto
termination
  by (relation "measure (\<lambda>(p, repl, s). length s)") auto

section \<open>The machine the script runs on\<close>

text \<open>
  The script reads and writes files, prints, changes directory, runs commands and sends
  HTTP requests. The file system is a map from path to content; the other effects are
  recorded, in order, in a trace. What the outside answers (whether a directory can be
  entered, what a command returns, what a server replies, what the random generator
  draws) is the parameter \<open>env\<close>.

  A path that is present is a readable regular file and every path can be written:
  \<^verbatim>\<open>open(p, 'w')\<close> does not fail in this model, \<^verbatim>\<open>open(p, 'r')\<close> raises
  \<^verbatim>\<open>FileNotFoundError\<close> exactly when \<open>p\<close> is absent.
\<close>

record request =
  url :: string
  data :: "string option"
  headers :: "(string \<times> string) list"
  http_method :: string

datatype event =
    Print string
  | Chdir string
  | Run "string list"
  | Write string string
  | Urlopen request

record world =
  files :: "string \<rightharpoonup> string"
  trace :: "event list"

record completed =
  returncode :: int
  stdout :: string
  stderr :: string

record env =
  os_chdir :: "string \<Rightarrow> unit res"
  subprocess_run :: "string list \<Rightarrow> completed res"
  urlopen :: "request \<Rightarrow> string res"
  rand :: "nat \<Rightarrow> nat"

type_synonym 'a prog = "world \<Rightarrow> 'a res \<times> world"

definition ret :: "'a \<Rightarrow> 'a prog" where
  "ret x w = (Inr x, w)"

definition raise :: "exn \<Rightarrow> 'a prog" where
  "raise e w = (Inl e, w)"

definition bind :: "'a prog \<Rightarrow> ('a \<Rightarrow> 'b prog) \<Rightarrow> 'b prog" where
  "bind m f w = (case m w of (Inl e, w') \<Rightarrow> (Inl e, w') | (Inr x, w') \<Rightarrow> f x w')"

text \<open>A sequence of statements: the first exception ends it.\<close>

fun block :: "unit prog list \<Rightarrow> unit prog" where
  "block [] w = (Inr (), w)"
| "block (c # cs) w = (case c w of (Inl e, w') \<Rightarrow> (Inl e, w') | (Inr u, w') \<Rightarrow> block cs w')"

definition emit :: "event \<Rightarrow> unit prog" where
  "emit e w = (Inr (), w\<lparr>trace := trace w @ [e]\<rparr>)"

definition print :: "string \<Rightarrow> unit prog" where
  "print s = emit (Print s)"

definition path_exists :: "world \<Rightarrow> string \<Rightarrow> bool" where
  "path_exists w p = (files w p \<noteq> None)"

definition read_file :: "string \<Rightarrow> string prog" where
  "read_file p w =
     (case files w p of
        None \<Rightarrow> (Inl (Exn FileNotFoundError (''[Errno 2] No such file or directory: '' @ [CHR 0x27] @ p @ [CHR 0x27])), w)
      | Some c \<Rightarrow> (Inr c, w))"

definition write_file :: "string \<Rightarrow> string \<Rightarrow> unit prog" where
  "write_file p c w = (Inr (), w\<lparr>files := (files w)(p \<mapsto> c), trace := trace w @ [Write p c]\<rparr>)"

definition chdir :: "env \<Rightarrow> string \<Rightarrow> unit prog" where
  "chdir env p w =
     (case os_chdir env p of
        Inl e \<Rightarrow> (Inl e, w)
      | Inr u \<Rightarrow> (Inr (), w\<lparr>trace := trace w @ [Chdir p]\<rparr>))"

text \<open>
  \<^verbatim>\<open>subprocess.run(args)\<close>: the command is started (and recorded) unless starting it
  raises, for example when the executable is missing.
\<close>

definition run :: "env \<Rightarrow> string list \<Rightarrow> completed prog" where
  "run env args w =
     (case subprocess_run env args of
        Inl e \<Rightarrow> (Inl e, w)
      | Inr r \<Rightarrow> (Inr r, w\<lparr>trace := trace w @ [Run args]\<rparr>))"

text \<open>
  \<^verbatim>\<open>urllib.request.urlopen(req, timeout=10)\<close> followed, where the script reads the
  reply, by \<^verbatim>\<open>.read().decode()\<close>: the request is recorded, the reply or the exception is
  the environment's.
\<close>

definition http :: "env \<Rightarrow> request \<Rightarrow> string prog" where
  "http env req w = (urlopen env req, w\<lparr>trace := trace w @ [Urlopen req]\<rparr>)"

text \<open>\<^verbatim>\<open>random.randint(a, b)\<close>: the \<open>i\<close>-th draw, brought into the range \<open>a..b\<close>.\<close>

definition randint :: "env \<Rightarrow> nat \<Rightarrow> nat \<Rightarrow> nat \<Rightarrow> nat" where
  "randint env i a b = a + rand env i mod (b - a + 1)"

section \<open>The script\<close>

definition RAG_API_PATH :: string where
  "RAG_API_PATH = ''/Users/michaelweiss/RAG API/voiceroi-rag-api''"

text \<open>\<^verbatim>\<open>"\n" + "="*60\<close>, printed at the head of every step.\<close>

definition rule60 :: string where
  "rule60 = replicate 60 CHR ''=''"

definition banner :: string where
  "banner = [CHR 10] @ rule60"

definition step1_verify_state :: "env \<Rightarrow> unit prog" where
  "step1_verify_state env = block
     [print banner,
      print ''STEP 1: Verifying Current State'',
      print rule60,
      chdir env RAG_API_PATH,
      print ([CHR 10] @ ''[1.1] Finding all embedding call sites...''),
      bind (run env [''grep'', ''-rn'', ''embeddings.create'', ''app/'']) (\<lambda>r. ret ()),
      print ([CHR 10] @ ''[1.2] Finding get_embedding calls...''),
      bind (run env [''grep'', ''-rn'', ''get_embedding'', ''app/'']) (\<lambda>r. ret ()),
      print ([CHR 10] @ ''[1.3] Current version...''),
      bind (run env [''grep'', ''-n'', ''APP_VERSION'', ''app/main.py'']) (\<lambda>r. ret ())]"

subsection \<open>Step 2: \<^verbatim>\<open>app/services/infra.py\<close>\<close>

text \<open>The template the script writes, line by line.\<close>

definition INFRA_PY_FIXED :: string where
  \<open>INFRA_PY_FIXED = unlines
   [''"""'',
    ''VoiceROI RAG API - Infrastructure Services'',
    ''Canonical embedding function - ALL embedding calls MUST go through here.'',
    '''',
    ''Version: 1.0.6-circuit-breaker-fixed'',
    ''"""'',
    '''',
    ''import os'',
    ''import logging'',
    ''import asyncio'',
    ''from typing import Optional, List'',
    ''from openai import AsyncOpenAI'',
    ''from redis.asyncio import Redis'',
    '''',
    ''from app.middleware.circuit_breaker import ('',
    ''    embedding_breaker,'',
    ''    redis_breaker,'',
    ''    CircuitBreakerOpen,'',
    '')'',
    '''',
    ''logger = logging.getLogger("voiceroi.infra")'',
    '''',
    ''# Initialize OpenAI client'',
    ''openai_client = AsyncOpenAI(api_key=os.getenv("OPENAI_API_KEY"))'',
    '''',
    ''# Redis connection (initialized lazily)'',
    ''_redis_client: Optional[Redis] = None'',
    '''',
    '''',
    ''async def get_redis_client() -> Redis:'',
    ''    """Get or create Redis client."""'',
    ''    global _redis_client'',
    ''    if _redis_client is None:'',
    ''        redis_url = os.getenv("REDIS_URL")'',
    ''        if not redis_url:'',
    ''            raise ValueError("REDIS_URL not configured")'',
    ''        _redis_client = Redis.from_url('',
    ''            redis_url,'',
    ''            decode_responses=True,'',
    ''            socket_timeout=5.0,'',
    ''            socket_connect_timeout=5.0,'',
    ''        )'',
    ''    return _redis_client'',
    '''',
    '''',
    ''async def embed_text(text: str) -> List[float]:'',
    ''    """'',
    ''    Get embedding for text using OpenAI.'',
    ''    '',
    ''    THIS IS THE CANONICAL EMBEDDING FUNCTION.'',
    ''    All embedding calls in the entire codebase MUST route through here.'',
    ''    Protected by embedding_breaker circuit breaker.'',
    ''    '',
    ''    Args:'',
    ''        text: Text to embed'',
    ''        '',
    ''    Returns:'',
    ''        List of floats representing the embedding vector'',
    ''        '',
    ''    Raises:'',
    ''        CircuitBreakerOpen: If embedding service is unavailable'',
    ''    """'',
    ''    async def _do_embed():'',
    ''        response = await openai_client.embeddings.create('',
    ''            input=text,'',
    ''            model="text-embedding-3-small",'',
    ''        )'',
    ''        return response.data[0].embedding'',
    ''    '',
    ''    try:'',
    ''        embedding = await embedding_breaker.call(_do_embed)'',
    ''        logger.debug(f"embed_text: Generated embedding via breaker for '{text[:40]}...'")'',
    ''        return embedding'',
    ''    except CircuitBreakerOpen:'',
    ''        logger.warning(f"embed_text: Circuit OPEN, cannot embed '{text[:40]}...'")'',
    ''        raise'',
    ''    except Exception as e:'',
    ''        logger.error(f"embed_text: Failed to embed text: {e}")'',
    ''        raise'',
    '''',
    '''',
    ''async def health_check() -> dict:'',
    ''    """'',
    ''    Check health of Redis connection.'',
    ''    Protected by redis_breaker circuit breaker.'',
    ''    """'',
    ''    async def _do_ping():'',
    ''        client = await get_redis_client()'',
    ''        await client.ping()'',
    ''        return True'',
    ''    '',
    ''    try:'',
    ''        await redis_breaker.call(_do_ping)'',
    ''        return {"redis": "connected", "status": "healthy"}'',
    ''    except CircuitBreakerOpen:'',
    ''        return {"redis": "circuit_open", "status": "degraded"}'',
    ''    except Exception as e:'',
    ''        logger.error(f"Health check failed: {e}")'',
    ''        return {"redis": "error", "status": "unhealthy", "error": str(e)}'']\<close>

definition infra_path :: string where
  "infra_path = path_join RAG_API_PATH ''app/services/infra.py''"

definition step2_fix_infra :: "unit prog" where
  "step2_fix_infra =
     (let backup_path = infra_path @ ''.backup'' in block
       [print banner,
        print ''STEP 2: Fixing infra.py'',
        print rule60,
        (\<lambda>w. if path_exists w infra_path
              then block
                [bind (read_file infra_path) (write_file backup_path),
                 print (''[2.1] Backed up to '' @ backup_path)] w
              else ret () w),
        write_file infra_path INFRA_PY_FIXED,
        print ''[2.2] Written fixed infra.py''])"

subsection \<open>Step 3: \<^verbatim>\<open>get_embedding\<close> in \<^verbatim>\<open>app/main.py\<close>\<close>

definition GET_EMBEDDING_FIXED :: string where
  \<open>GET_EMBEDDING_FIXED = [CHR 10] @ unlines
   [''async def get_embedding(text: str) -> list[float]:'',
    ''    """'',
    ''    Get embedding for semantic cache lookup.'',
    ''    Routes through canonical embed_text() which is protected by circuit breaker.'',
    ''    '',
    ''    IMPORTANT: This function MUST call embed_text from infra.py to ensure'',
    ''    all embeddings go through the circuit breaker.'',
    ''    """'',
    ''    from app.services.infra import embed_text'',
    ''    return await embed_text(text)'']\<close>

definition main_path :: string where
  "main_path = path_join RAG_API_PATH ''app/main.py''"

text \<open>
  \<^verbatim>\<open>async def get_embedding\(text: str\)[^:]*:[^}]+?return resp\.data\[0\]\.embedding\<close>
\<close>

definition pattern :: "item list" where
  "pattern =
     [Lit ''async def get_embedding(text: str)'',
      StarG (Not_chr CHR '':''),
      Lit '':'',
      PlusL (Not_chr CHR ''}''),
      Lit ''return resp.data[0].embedding'']"

text \<open>
  \<^verbatim>\<open>async def get_embedding\([^)]+\):[\s\S]*?return[^\n]+embedding\<close>
\<close>

definition alt_pattern :: "item list" where
  "alt_pattern =
     [Lit ''async def get_embedding('',
      PlusG (Not_chr CHR '')''),
      Lit ''):'',
      StarL Any_chr,
      Lit ''return'',
      PlusG (Not_chr (CHR 10)),
      Lit ''embedding'']"

text \<open>
  \<^verbatim>\<open>APP_VERSION\s*=\s*"[^"]+"\<close>
\<close>

definition version_pattern :: "item list" where
  \<open>version_pattern =
     [Lit ''APP_VERSION'',
      StarG Space,
      Lit ''='',
      StarG Space,
      Lit ''"'',
      PlusG (Not_chr CHR ''"''),
      Lit ''"'']\<close>

definition version_repl :: string where
  \<open>version_repl = ''APP_VERSION = "1.0.6-circuit-breakers-fixed"''\<close>

text \<open>
  The \<^verbatim>\<open>if\<close> statement that looks for the function (the value is the new
  \<^verbatim>\<open>content\<close>): the first pattern, else the second, else a warning.
\<close>

definition replace_get_embedding :: "string \<Rightarrow> string prog" where
  "replace_get_embedding content =
     (if re_search pattern content \<noteq> None then
        (let content = re_sub pattern (strip GET_EMBEDDING_FIXED) content
         in bind (print ''[3.2] Replaced get_embedding function'') (\<lambda>u. ret content))
      else if re_search alt_pattern content \<noteq> None then
        (let content = re_sub alt_pattern (strip GET_EMBEDDING_FIXED) content
         in bind (print ''[3.2] Replaced get_embedding (alt pattern)'') (\<lambda>u. ret content))
      else
        bind (block
          [print ''[3.2] WARNING: Could not find get_embedding pattern. Manual fix needed.'',
           print (''      Look for '' @ [CHR 0x27] @ ''async def get_embedding'' @ [CHR 0x27] @ '' and replace with:''),
           print GET_EMBEDDING_FIXED]) (\<lambda>u. ret content))"

definition step3_fix_main_get_embedding :: "unit prog" where
  "step3_fix_main_get_embedding = block
     [print banner,
      print ''STEP 3: Fixing main.py get_embedding'',
      print rule60,
      bind (read_file main_path) (\<lambda>content. block
        [write_file (main_path @ ''.backup'') content,
         print ''[3.1] Backed up main.py'',
         bind (replace_get_embedding content) (\<lambda>content.
           (let content = re_sub version_pattern version_repl content in block
             [print ''[3.3] Updated APP_VERSION'',
              write_file main_path content,
              print ''[3.4] Written fixed main.py'']))])]"

subsection \<open>Step 4: \<^verbatim>\<open>app/metrics.py\<close>\<close>

definition METRICS_PY_FIXED :: string where
  \<open>METRICS_PY_FIXED = unlines
   [''"""'',
    ''VoiceROI RAG API - Prometheus Metrics'',
    ''Standardized metric names with voiceroi_ prefix.'',
    ''"""'',
    '''',
    ''from prometheus_client import Counter, Gauge, generate_latest, CONTENT_TYPE_LATEST'',
    '''',
    ''# Circuit Breaker Metrics - STANDARDIZED NAMES'',
    ''voiceroi_circuit_calls_total = Counter('',
    ''    "voiceroi_circuit_calls_total",'',
    ''    "Total calls through circuit breaker",'',
    ''    ["name"],'',
    '')'',
    '''',
    ''voiceroi_circuit_successes_total = Counter('',
    ''    "voiceroi_circuit_successes_total",'',
    ''    "Successful calls through circuit breaker",'',
    ''    ["name"],'',
    '')'',
    '''',
    ''voiceroi_circuit_failures_total = Counter('',
    ''    "voiceroi_circuit_failures_total",'',
    ''    "Failed calls through circuit breaker",'',
    ''    ["name"],'',
    '')'',
    '''',
    ''voiceroi_circuit_rejections_total = Counter('',
    ''    "voiceroi_circuit_rejections_total",'',
    ''    "Rejected calls (circuit open)",'',
    ''    ["name"],'',
    '')'',
    '''',
    ''voiceroi_circuit_timeouts_total = Counter('',
    ''    "voiceroi_circuit_timeouts_total",'',
    ''    "Timed out calls",'',
    ''    ["name"],'',
    '')'',
    '''',
    ''voiceroi_circuit_state = Gauge('',
    ''    "voiceroi_circuit_state",'',
    ''    "Current circuit state (0=CLOSED, 0.5=HALF_OPEN, 1=OPEN)",'',
    ''    ["name"],'',
    '')'',
    '''',
    ''voiceroi_circuit_consecutive_opens = Gauge('',
    ''    "voiceroi_circuit_consecutive_opens",'',
    ''    "Number of consecutive OPEN transitions",'',
    ''    ["name"],'',
    '')'',
    '''',
    ''voiceroi_circuit_success_rate = Gauge('',
    ''    "voiceroi_circuit_success_rate",'',
    ''    "Success rate percentage",'',
    ''    ["name"],'',
    '')'',
    '''',
    ''# Query Metrics'',
    ''voiceroi_query_total = Counter('',
    ''    "voiceroi_query_total",'',
    ''    "Total queries processed",'',
    ''    ["layer", "source"],'',
    '')'',
    '''',
    ''voiceroi_query_latency_seconds = Gauge('',
    ''    "voiceroi_query_latency_seconds",'',
    ''    "Query latency in seconds",'',
    ''    ["layer"],'',
    '')'',
    '''',
    '''',
    ''def get_metrics_output() -> bytes:'',
    ''    """Generate Prometheus metrics output."""'',
    ''    return generate_latest()'']\<close>

definition metrics_path :: string where
  "metrics_path = path_join RAG_API_PATH ''app/metrics.py''"

definition step4_fix_metrics :: "unit prog" where
  "step4_fix_metrics = block
     [print banner,
      print ''STEP 4: Fixing metrics.py'',
      print rule60,
      (\<lambda>w. if path_exists w metrics_path
            then block
              [bind (read_file metrics_path) (write_file (metrics_path @ ''.backup'')),
               print ''[4.1] Backed up metrics.py''] w
            else ret () w),
      write_file metrics_path METRICS_PY_FIXED,
      print ''[4.2] Written fixed metrics.py'']"

subsection \<open>Steps 5 and 6: deployment and the smoke test\<close>


definition API_URL :: string where
  "API_URL = ''https://voiceroi-rag-api.fly.dev''"

text \<open>
  The source holds the key of the deployed service as a literal; the literal is not
  repeated here, and nothing below depends on its value.
\<close>

definition API_KEY :: string where
  "API_KEY = ''(the key literal of the source)''"

text \<open>
  One turn of the loop \<^verbatim>\<open>for i in range(5)\<close>. The question holds letters, digits and
  spaces only, so \<^verbatim>\<open>json.dumps\<close> escapes nothing in it.
\<close>

definition send_query :: "env \<Rightarrow> nat \<Rightarrow> unit prog" where
  \<open>send_query env i =
     (let q = ''Unique test query '' @ str_of_nat (randint env i 10000 99999)
                @ '' about VoiceROI investment'';
          req = \<lparr>url = API_URL @ ''/query'',
                 data = Some (''{"question": "'' @ q @ ''"}''),
                 headers = [(''Content-Type'', ''application/json''), (''x-api-key'', API_KEY)],
                 http_method = ''POST''\<rparr>
      in (\<lambda>w. case http env req w of
                (Inr body, w') \<Rightarrow> print (''  Query '' @ str_of_nat (i + 1) @ '': OK'') w'
              | (Inl e, w') \<Rightarrow>
                  if is_Exception e
                  then print (''  Query '' @ str_of_nat (i + 1) @ '': '' @ msg e) w'
                  else (Inl e, w')))\<close>

text \<open>
  \<^verbatim>\<open>voiceroi_circuit_calls_total\{name="embedding"\}\s+(\d+)\<close>; the group is the
  item of index 2.
\<close>

definition calls_pattern :: "item list" where
  \<open>calls_pattern =
     [Lit ''voiceroi_circuit_calls_total{name="embedding"}'', PlusG Space, PlusG Digit]\<close>

text \<open>
  The two symbols the last messages start with lie beyond code point 255; the trace holds
  their UTF-8 bytes.
\<close>

definition step6_verify :: "env \<Rightarrow> bool prog" where
  \<open>step6_verify env =
     bind (block
       ([print banner,
         print ''STEP 6: Verification Test'',
         print rule60,
         print ''[6.1] Sending 5 unique queries...'']
        @ map (send_query env) [0..<5]
        @ [print ([CHR 10] @ ''[6.2] Checking metrics...'')])) (\<lambda>u.
     bind (http env \<lparr>url = API_URL @ ''/metrics'', data = None, headers = [],
                   http_method = ''GET''\<rparr>)
       (\<lambda>metrics.
     bind (block (map
       (\<lambda>line. if contains ''voiceroi_circuit_calls_total'' line
                  \<or> contains ''circuit_breaker_calls_total'' line
               then print (''  '' @ line) else ret ())
       (split_nl metrics))) (\<lambda>u.
       if contains ''voiceroi_circuit_calls_total{name="embedding"}'' metrics
          \<and> (case re_search calls_pattern metrics of
                None \<Rightarrow> False
              | Some m \<Rightarrow> 0 < int_of_digits (item_text m 2))
       then bind (print ([CHR 10, CHR 0xE2, CHR 0x9C, CHR 0x85]
                    @ '' SUCCESS: Embedding circuit breaker is now being invoked!''))
              (\<lambda>u. ret True)
       else bind (print ([CHR 10, CHR 0xE2, CHR 0x9A, CHR 0xA0, CHR 0xEF, CHR 0xB8, CHR 0x8F]
                    @ '' WARNING: Check if embedding breaker calls increased''))
              (\<lambda>u. ret False))))\<close>

subsection \<open>The main program\<close>

text \<open>The body of \<^verbatim>\<open>if __name__ == "__main__":\<close>.\<close>

definition main :: "env \<Rightarrow> unit prog" where
  \<open>main env = block
     [print rule60,
      print ''VOICEROI CIRCUIT BREAKER FIX SCRIPT'',
      print rule60,
      step1_verify_state env,
      step2_fix_infra,
      step3_fix_main_get_embedding,
      step4_fix_metrics,
      print banner,
      print ''READY TO DEPLOY'',
      print rule60,
      print ([CHR 10] @ ''Run these commands manually:''),
      print (''  cd "'' @ RAG_API_PATH @ ''"''),
      print ''  fly deploy --now'',
      print [],
      print ''Then run verification:'',
      print (''  python3 -c '' @ [CHR 0x27]
             @ ''from CLAUDE_EXECUTE_NOW import step6_verify; step6_verify()'' @ [CHR 0x27])]\<close>

section \<open>The circuit breaker the installed code calls\<close>

text \<open>
  Modelled from the spec: the module \<^verbatim>\<open>app.middleware.circuit_breaker\<close>, from which
  the template imports \<^verbatim>\<open>embedding_breaker\<close>, \<^verbatim>\<open>redis_breaker\<close> and
  \<^verbatim>\<open>CircuitBreakerOpen\<close>, is not part of the source. The states are the three of the
  specification's data model.
\<close>

datatype breaker_state = CLOSED | OPEN | HALF_OPEN

text \<open>
  Modelled from the spec: the fields of \<^verbatim>\<open>CircuitBreaker\<close> in the data model.
  Timestamps and durations are integers (ticks of a clock).
\<close>

record breaker =
  name :: string
  state :: breaker_state
  failure_count :: nat
  failure_threshold :: nat
  open_since :: int
  reset_timeout :: int
  consecutive_opens :: nat

text \<open>
  Modelled from the spec: what \<^verbatim>\<open>call\<close> does to the breaker when the operation
  succeeds. CLOSED: reset \<^verbatim>\<open>failure_count\<close> to 0. HALF_OPEN: transition to CLOSED and
  reset \<^verbatim>\<open>failure_count\<close> to 0.
\<close>

definition on_success :: "breaker \<Rightarrow> breaker" where
  "on_success b =
     (case state b of
        CLOSED \<Rightarrow> b\<lparr>failure_count := 0\<rparr>
      | HALF_OPEN \<Rightarrow> b\<lparr>state := CLOSED, failure_count := 0\<rparr>
      | OPEN \<Rightarrow> b)"

text \<open>
  Modelled from the spec: what \<^verbatim>\<open>call\<close> does to the breaker when the operation
  fails at time \<open>t\<close>. CLOSED: increment \<^verbatim>\<open>failure_count\<close>; if it reaches
  \<^verbatim>\<open>failure_threshold\<close>, transition to OPEN, record \<^verbatim>\<open>open_since\<close>, increment
  \<^verbatim>\<open>consecutive_opens\<close>. HALF_OPEN: transition back to OPEN, reset \<^verbatim>\<open>open_since\<close>,
  increment \<^verbatim>\<open>consecutive_opens\<close>.
\<close>

definition on_failure :: "int \<Rightarrow> breaker \<Rightarrow> breaker" where
  "on_failure t b =
     (case state b of
        CLOSED \<Rightarrow>
          (let b' = b\<lparr>failure_count := failure_count b + 1\<rparr>
           in if failure_threshold b' \<le> failure_count b'
              then b'\<lparr>state := OPEN, open_since := t,
                      consecutive_opens := consecutive_opens b' + 1\<rparr>
              else b')
      | HALF_OPEN \<Rightarrow>
          b\<lparr>state := OPEN, open_since := t, consecutive_opens := consecutive_opens b + 1\<rparr>
      | OPEN \<Rightarrow> b)"

text \<open>
  Modelled from the spec: the operation \<^verbatim>\<open>call(operation)\<close> of the breaker, which the
  source only calls. The wrapped operation acts on a state \<open>w\<close> that holds the clock.
  OPEN: if \<^verbatim>\<open>now - open_since < reset_timeout\<close>, reject without invoking the operation;
  if the timeout has elapsed, transition to HALF_OPEN and let the call through. Otherwise
  execute the operation; its value is returned, its error is propagated unchanged. The
  breaker retries nothing. Calls are taken one at a time: the lock that serialises
  concurrent callers is not modelled.
\<close>

definition breaker_call ::
  "('w \<Rightarrow> int) \<Rightarrow> ('w \<Rightarrow> 'a res \<times> 'w) \<Rightarrow> breaker \<times> 'w \<Rightarrow> 'a res \<times> breaker \<times> 'w" where
  "breaker_call clock operation bw =
     (case bw of (b, w) \<Rightarrow>
        if state b = OPEN \<and> clock w - open_since b < reset_timeout b
        then (Inl (Exn CircuitBreakerOpen (name b)), b, w)
        else
          (let b1 = (if state b = OPEN then b\<lparr>state := HALF_OPEN\<rparr> else b)
           in case operation w of
                (Inr v, w') \<Rightarrow> (Inr v, on_success b1, w')
              | (Inl e, w') \<Rightarrow> (Inl e, on_failure (clock w') b1, w')))"

section \<open>The code the script installs: \<^verbatim>\<open>app/services/infra.py\<close>\<close>

text \<open>
  The functions of the template \<^verbatim>\<open>INFRA_PY_FIXED\<close>. They are coroutines without
  interleaving of their own: each \<^verbatim>\<open>await\<close> is a call that returns or raises, and a call
  runs to its end. The state of the module is the global \<^verbatim>\<open>_redis_client\<close>; the calls
  that leave the process (environment variables, client construction, requests, log
  records) are recorded in order. What they answer is the parameter \<open>ext\<close>.
\<close>

text \<open>
  The client \<^verbatim>\<open>Redis.from_url(redis_url, decode_responses=True, socket_timeout=5.0,
  socket_connect_timeout=5.0)\<close> returns, named by its URL.
\<close>

datatype redis = Redis string

datatype effect =
    Getenv string
  | From_url string
  | Ping redis
  | Embeddings_create string
  | Log string string

record infra =
  redis_client :: "redis option"
  effects :: "effect list"

record ext =
  getenv :: "string \<Rightarrow> string option"
  async_openai :: "string option \<Rightarrow> unit res"
  from_url :: "string \<Rightarrow> redis res"
  ping :: "redis \<Rightarrow> unit res"
  embeddings_create :: "string \<Rightarrow> real list list res"

definition effect :: "effect \<Rightarrow> 'a infra_scheme \<Rightarrow> 'a infra_scheme" where
  "effect e s = s\<lparr>effects := effects s @ [e]\<rparr>"

text \<open>
  The statements at module level: the OpenAI client is built from
  \<^verbatim>\<open>OPENAI_API_KEY\<close>, \<^verbatim>\<open>_redis_client\<close> starts as \<^verbatim>\<open>None\<close>.
\<close>

definition import_infra :: "ext \<Rightarrow> 'a infra_scheme \<Rightarrow> unit res \<times> 'a infra_scheme" where
  "import_infra ext s =
     (let s1 = effect (Getenv ''OPENAI_API_KEY'') s
      in case async_openai ext (getenv ext ''OPENAI_API_KEY'') of
           Inl e \<Rightarrow> (Inl e, s1)
         | Inr u \<Rightarrow> (Inr (), s1\<lparr>redis_client := None\<rparr>))"

definition get_redis_client :: "ext \<Rightarrow> 'a infra_scheme \<Rightarrow> redis res \<times> 'a infra_scheme" where
  "get_redis_client ext s =
     (case redis_client s of
        None \<Rightarrow>
          (let redis_url = getenv ext ''REDIS_URL'';
               s1 = effect (Getenv ''REDIS_URL'') s
           in if redis_url = None \<or> redis_url = Some []
              then (Inl (Exn ValueError ''REDIS_URL not configured''), s1)
              else
                (let s2 = effect (From_url (the redis_url)) s1
                 in case from_url ext (the redis_url) of
                      Inl e \<Rightarrow> (Inl e, s2)
                    | Inr client \<Rightarrow> (Inr client, s2\<lparr>redis_client := Some client\<rparr>)))
      | Some client \<Rightarrow> (Inr client, s))"

text \<open>The inner function \<^verbatim>\<open>_do_embed\<close> of \<^verbatim>\<open>embed_text\<close>.\<close>

definition do_embed :: "ext \<Rightarrow> string \<Rightarrow> 'a infra_scheme \<Rightarrow> real list res \<times> 'a infra_scheme" where
  "do_embed ext text s =
     (let s1 = effect (Embeddings_create text) s
      in case embeddings_create ext text of
           Inl e \<Rightarrow> (Inl e, s1)
         | Inr response_data \<Rightarrow>
             (case response_data of
                [] \<Rightarrow> (Inl (Exn IndexError ''list index out of range''), s1)
              | d # ds \<Rightarrow> (Inr d, s1)))"

text \<open>
  \<^verbatim>\<open>embed_text\<close>. The breaker's \<^verbatim>\<open>call\<close> is the parameter \<open>call\<close>: it takes the
  operation and the state and returns or raises.
\<close>

definition embed_text ::
  "(('a infra_scheme \<Rightarrow> real list res \<times> 'a infra_scheme)
      \<Rightarrow> 'a infra_scheme \<Rightarrow> real list res \<times> 'a infra_scheme)
   \<Rightarrow> ext \<Rightarrow> string \<Rightarrow> 'a infra_scheme \<Rightarrow> real list res \<times> 'a infra_scheme" where
  "embed_text call ext text s =
     (case call (do_embed ext text) s of
        (Inr embedding, s') \<Rightarrow>
          (Inr embedding,
           effect (Log ''DEBUG'' (''embed_text: Generated embedding via breaker for ''
             @ [CHR 0x27] @ take 40 text @ ''...'' @ [CHR 0x27])) s')
      | (Inl e, s') \<Rightarrow>
          if cls e = CircuitBreakerOpen then
            (Inl e,
             effect (Log ''WARNING'' (''embed_text: Circuit OPEN, cannot embed ''
               @ [CHR 0x27] @ take 40 text @ ''...'' @ [CHR 0x27])) s')
          else if is_Exception e then
            (Inl e, effect (Log ''ERROR'' (''embed_text: Failed to embed text: '' @ msg e)) s')
          else (Inl e, s'))"

text \<open>The inner function \<^verbatim>\<open>_do_ping\<close> of \<^verbatim>\<open>health_check\<close>.\<close>

definition do_ping :: "ext \<Rightarrow> 'a infra_scheme \<Rightarrow> bool res \<times> 'a infra_scheme" where
  "do_ping ext s =
     (case get_redis_client ext s of
        (Inl e, s') \<Rightarrow> (Inl e, s')
      | (Inr client, s') \<Rightarrow>
          (case ping ext client of
             Inl e \<Rightarrow> (Inl e, effect (Ping client) s')
           | Inr u \<Rightarrow> (Inr True, effect (Ping client) s')))"

text \<open>\<^verbatim>\<open>health_check\<close>; the dictionary it returns is the list of its items.\<close>

definition health_check ::
  "(('a infra_scheme \<Rightarrow> bool res \<times> 'a infra_scheme)
      \<Rightarrow> 'a infra_scheme \<Rightarrow> bool res \<times> 'a infra_scheme)
   \<Rightarrow> ext \<Rightarrow> 'a infra_scheme \<Rightarrow> (string \<times> string) list res \<times> 'a infra_scheme" where
  "health_check call ext s =
     (case call (do_ping ext) s of
        (Inr v, s') \<Rightarrow> (Inr [(''redis'', ''connected''), (''status'', ''healthy'')], s')
      | (Inl e, s') \<Rightarrow>
          if cls e = CircuitBreakerOpen then
            (Inr [(''redis'', ''circuit_open''), (''status'', ''degraded'')], s')
          else if is_Exception e then
            (Inr [(''redis'', ''error''), (''status'', ''unhealthy''), (''error'', msg e)],
             effect (Log ''ERROR'' (''Health check failed: '' @ msg e)) s')
          else (Inl e, s'))"

text \<open>\<^verbatim>\<open>d["status"]\<close> of a returned dictionary.\<close>

definition status :: "(string \<times> string) list \<Rightarrow> string option" where
  "status d = map_of d ''status''"

text \<open>
  A process makes its calls of \<^verbatim>\<open>get_redis_client\<close> one after the other, each under
  the environment of its moment.
\<close>

fun get_redis_client_calls ::
  "ext list \<Rightarrow> 'a infra_scheme \<Rightarrow> redis res list \<times> 'a infra_scheme" where
  "get_redis_client_calls [] s = ([], s)"
| "get_redis_client_calls (ext # exts) s =
     (case get_redis_client ext s of
        (r, s') \<Rightarrow> (case get_redis_client_calls exts s' of (rs, s'') \<Rightarrow> (r # rs, s'')))"

subsection \<open>The installed code on the specified breakers\<close>

text \<open>
  The process state that holds the module state, the clock and the two breaker
  instances, and the \<^verbatim>\<open>call\<close> of each instance on it.
\<close>

record guarded = infra +
  now :: int
  embedding_breaker :: breaker
  redis_breaker :: breaker

definition embedding_call ::
  "(guarded \<Rightarrow> 'a res \<times> guarded) \<Rightarrow> guarded \<Rightarrow> 'a res \<times> guarded" where
  "embedding_call operation s =
     (case breaker_call now operation (embedding_breaker s, s) of
        (r, b, s') \<Rightarrow> (r, s'\<lparr>embedding_breaker := b\<rparr>))"

definition redis_call ::
  "(guarded \<Rightarrow> 'a res \<times> guarded) \<Rightarrow> guarded \<Rightarrow> 'a res \<times> guarded" where
  "redis_call operation s =
     (case breaker_call now operation (redis_breaker s, s) of
        (r, b, s') \<Rightarrow> (r, s'\<lparr>redis_breaker := b\<rparr>))"

section \<open>The code the script installs: \<^verbatim>\<open>app/metrics.py\<close>\<close>

text \<open>
  The module-level assignments of the template \<^verbatim>\<open>METRICS_PY_FIXED\<close>, in order: the
  variable, the constructor, and its arguments (name, documentation, label names).
\<close>

datatype metric_kind = Counter | Gauge

record metric =
  var :: string
  kind :: metric_kind
  metric_name :: string
  documentation :: string
  labelnames :: "string list"





section \<open>Reading a trace\<close>

text \<open>
  The file writes, the commands, the HTTP requests and the printed texts among the events
  of a trace, each in the order of the trace; the files after a list of writes; a world after more events;
  and the events a program adds to a world's trace.
\<close>

fun writes :: "event list \<Rightarrow> (string \<times> string) list" where
  "writes [] = []"
| "writes (Write p c # es) = (p, c) # writes es"
| "writes (e # es) = writes es"

fun commands :: "event list \<Rightarrow> string list list" where
  "commands [] = []"
| "commands (Run args # es) = args # commands es"
| "commands (e # es) = commands es"

fun requests :: "event list \<Rightarrow> request list" where
  "requests [] = []"
| "requests (Urlopen r # es) = r # requests es"
| "requests (e # es) = requests es"

fun apply_writes :: "(string \<times> string) list \<Rightarrow> (string \<rightharpoonup> string) \<Rightarrow> (string \<rightharpoonup> string)" where
  "apply_writes [] f = f"
| "apply_writes ((p, c) # ws) f = apply_writes ws (f(p \<mapsto> c))"

fun printed :: "event list \<Rightarrow> string list" where
  "printed [] = []"
| "printed (Print s # es) = s # printed es"
| "printed (e # es) = printed es"

definition after :: "world \<Rightarrow> event list \<Rightarrow> world" where
  "after w es = w\<lparr>files := apply_writes (writes es) (files w), trace := trace w @ es\<rparr>"



subsection \<open>What the steps leave in the trace\<close>

text \<open>
  The events of each step, as lists: of the heading of the main program, of step 1 up to
  its \<open>n\<close>-th statement that can raise (the change of directory and the three commands),
  of steps 2 and 4 given the old content of the target (\<open>None\<close> when it was absent), of
  step 3 given the old content of \<^verbatim>\<open>main.py\<close>, and of the closing messages of the main
  program. The lemmas of the section on the script prove that the steps leave exactly
  these events.
\<close>

definition title_events :: "event list" where
  "title_events = [Print rule60, Print ''VOICEROI CIRCUIT BREAKER FIX SCRIPT'', Print rule60]"

definition step1_all :: "event list" where
  "step1_all =
     [Print banner, Print ''STEP 1: Verifying Current State'', Print rule60,
      Chdir RAG_API_PATH,
      Print ([CHR 10] @ ''[1.1] Finding all embedding call sites...''),
      Run [''grep'', ''-rn'', ''embeddings.create'', ''app/''],
      Print ([CHR 10] @ ''[1.2] Finding get_embedding calls...''),
      Run [''grep'', ''-rn'', ''get_embedding'', ''app/''],
      Print ([CHR 10] @ ''[1.3] Current version...''),
      Run [''grep'', ''-n'', ''APP_VERSION'', ''app/main.py'']]"

definition step1_events :: "nat \<Rightarrow> event list" where
  "step1_events n = take (3 + 2 * n) step1_all"

definition step2_events :: "string option \<Rightarrow> event list" where
  "step2_events old =
     [Print banner, Print ''STEP 2: Fixing infra.py'', Print rule60]
     @ (case old of
          None \<Rightarrow> []
        | Some c \<Rightarrow> [Write (infra_path @ ''.backup'') c,
                     Print (''[2.1] Backed up to '' @ infra_path @ ''.backup'')])
     @ [Write infra_path INFRA_PY_FIXED, Print ''[2.2] Written fixed infra.py'']"

definition step3_events :: "string \<Rightarrow> event list" where
  "step3_events c =
     [Print banner, Print ''STEP 3: Fixing main.py get_embedding'', Print rule60,
      Write (main_path @ ''.backup'') c, Print ''[3.1] Backed up main.py'']
     @ (if re_search pattern c \<noteq> None then [Print ''[3.2] Replaced get_embedding function'']
        else if re_search alt_pattern c \<noteq> None
        then [Print ''[3.2] Replaced get_embedding (alt pattern)'']
        else [Print ''[3.2] WARNING: Could not find get_embedding pattern. Manual fix needed.'',
              Print (''      Look for '' @ [CHR 0x27] @ ''async def get_embedding'' @ [CHR 0x27]
                     @ '' and replace with:''),
              Print GET_EMBEDDING_FIXED])
     @ [Print ''[3.3] Updated APP_VERSION'',
        Write main_path
          (re_sub version_pattern version_repl
            (if re_search pattern c \<noteq> None
             then re_sub pattern (strip GET_EMBEDDING_FIXED) c
             else if re_search alt_pattern c \<noteq> None
             then re_sub alt_pattern (strip GET_EMBEDDING_FIXED) c
             else c)),
        Print ''[3.4] Written fixed main.py'']"

definition step4_events :: "string option \<Rightarrow> event list" where
  "step4_events old =
     [Print banner, Print ''STEP 4: Fixing metrics.py'', Print rule60]
     @ (case old of
          None \<Rightarrow> []
        | Some c \<Rightarrow> [Write (metrics_path @ ''.backup'') c, Print ''[4.1] Backed up metrics.py''])
     @ [Write metrics_path METRICS_PY_FIXED, Print ''[4.2] Written fixed metrics.py'']"

definition closing_events :: "event list" where
  \<open>closing_events =
     [Print banner, Print ''READY TO DEPLOY'', Print rule60,
      Print ([CHR 10] @ ''Run these commands manually:''),
      Print (''  cd "'' @ RAG_API_PATH @ ''"''),
      Print ''  fly deploy --now'',
      Print [],
      Print ''Then run verification:'',
      Print (''  python3 -c '' @ [CHR 0x27]
             @ ''from CLAUDE_EXECUTE_NOW import step6_verify; step6_verify()'' @ [CHR 0x27])]\<close>

section \<open>Concrete processes\<close>

text \<open>
  Instances the theorems below are evaluated on: an environment where everything
  answers, the same environment without \<^verbatim>\<open>REDIS_URL\<close>, the specification's scenario
  breaker (threshold 3, timeout 60), and a process at time 30 whose breakers are closed.
\<close>

definition ext_ok :: ext where
  "ext_ok =
     \<lparr>getenv = [''REDIS_URL'' \<mapsto> ''redis://cache:6379'', ''OPENAI_API_KEY'' \<mapsto> ''sk-test''],
      async_openai = (\<lambda>k. Inr ()),
      from_url = (\<lambda>u. Inr (Redis u)),
      ping = (\<lambda>c. Inr ()),
      embeddings_create = (\<lambda>t. Inr [[1, 2]])\<rparr>"

definition ext_no_url :: ext where
  "ext_no_url = ext_ok\<lparr>getenv := [''OPENAI_API_KEY'' \<mapsto> ''sk-test'']\<rparr>"

definition breaker0 :: "string \<Rightarrow> breaker" where
  "breaker0 n =
     \<lparr>name = n, state = CLOSED, failure_count = 0, failure_threshold = 3,
      open_since = 0, reset_timeout = 60, consecutive_opens = 0\<rparr>"

definition tripped :: "string \<Rightarrow> breaker" where
  "tripped n = (breaker0 n)\<lparr>state := OPEN, failure_count := 3, consecutive_opens := 1\<rparr>"

definition process0 :: guarded where
  "process0 =
     \<lparr>redis_client = None, effects = [], now = 30,
      embedding_breaker = breaker0 ''embedding'', redis_breaker = breaker0 ''redis''\<rparr>"


definition process1 :: guarded where
  "process1 =
     process0\<lparr>redis_client := Some (Redis ''redis://cache:6379''),
              effects := [Getenv ''REDIS_URL'', From_url ''redis://cache:6379'']\<rparr>"







section \<open>Properties of the breaker\<close>

text \<open>
  C8: for every call made while the breaker is OPEN and before \<^verbatim>\<open>reset_timeout\<close> has
  elapsed since \<^verbatim>\<open>open_since\<close>, the call is rejected with the breaker-open error and
  the wrapped operation is never invoked: whatever the operation would do, the state it
  acts on is returned as it was, and so is the breaker.
\<close>

theorem open_breaker_rejects:
  assumes "state b = OPEN" and "clock w - open_since b < reset_timeout b"
  shows "breaker_call clock operation (b, w) = (Inl (Exn CircuitBreakerOpen (name b)), b, w)"
  using assms by (simp add: breaker_call_def)

theorem open_breaker_rejects_witness:
  "state (tripped ''embedding'') = OPEN
   \<and> now process0 - open_since (tripped ''embedding'') < reset_timeout (tripped ''embedding'')
   \<and> breaker_call now (do_embed ext_ok ''hello'') (tripped ''embedding'', process0)
       = (Inl (Exn CircuitBreakerOpen ''embedding''), tripped ''embedding'', process0)"
  using open_breaker_rejects
    [of "tripped ''embedding''" now process0 "do_embed ext_ok ''hello''"]
  by (simp add: tripped_def breaker0_def process0_def)

lemma embedding_call_outcome:
  "fst (embedding_call operation s) =
     (if state (embedding_breaker s) = OPEN
         \<and> now s - open_since (embedding_breaker s) < reset_timeout (embedding_breaker s)
      then Inl (Exn CircuitBreakerOpen (name (embedding_breaker s)))
      else fst (operation s))"
  by (simp add: embedding_call_def breaker_call_def Let_def split: prod.splits sum.splits)

lemma redis_call_outcome:
  "fst (redis_call operation s) =
     (if state (redis_breaker s) = OPEN
         \<and> now s - open_since (redis_breaker s) < reset_timeout (redis_breaker s)
      then Inl (Exn CircuitBreakerOpen (name (redis_breaker s)))
      else fst (operation s))"
  by (simp add: redis_call_def breaker_call_def Let_def split: prod.splits sum.splits)

section \<open>Properties of the installed \<^verbatim>\<open>infra.py\<close>\<close>

lemma embed_text_outcome:
  "fst (embed_text call ext text s) = fst (call (do_embed ext text) s)"
  by (simp add: embed_text_def split: prod.splits sum.splits)

text \<open>
  C5: for every input text, \<^verbatim>\<open>embed_text\<close> propagates both
  \<^verbatim>\<open>CircuitBreakerOpen\<close> and any exception of the wrapped operation unchanged to its
  caller; it swallows neither and puts no default value in their place. Whatever breaker
  is called, the outcome of \<^verbatim>\<open>embed_text\<close> is the outcome of the breaker's call; on the
  specified breaker it is the breaker-open error when the call is rejected and the
  outcome of the wrapped operation itself otherwise.
\<close>

theorem embed_text_propagates:
  "fst (embed_text call ext text s) = fst (call (do_embed ext text) s)
   \<and> fst (embed_text embedding_call ext text g) =
       (if state (embedding_breaker g) = OPEN
           \<and> now g - open_since (embedding_breaker g) < reset_timeout (embedding_breaker g)
        then Inl (Exn CircuitBreakerOpen (name (embedding_breaker g)))
        else fst (do_embed ext text g))"
  by (simp only: embed_text_outcome embedding_call_outcome simp_thms)

lemma health_check_outcome:
  "fst (health_check call ext s) =
     (case fst (call (do_ping ext) s) of
        Inr v \<Rightarrow> Inr [(''redis'', ''connected''), (''status'', ''healthy'')]
      | Inl e \<Rightarrow>
          if cls e = CircuitBreakerOpen
          then Inr [(''redis'', ''circuit_open''), (''status'', ''degraded'')]
          else if is_Exception e
          then Inr [(''redis'', ''error''), (''status'', ''unhealthy''), (''error'', msg e)]
          else Inl e)"
  by (simp add: health_check_def split: prod.splits sum.splits)





lemma get_redis_client_caches:
  "get_redis_client ext s = (Inr client, s') \<Longrightarrow> redis_client s' = Some client"
  by (auto simp: get_redis_client_def Let_def effect_def split: option.splits sum.splits if_splits)

lemma get_redis_client_cached_call:
  "redis_client s = Some client \<Longrightarrow> get_redis_client ext s = (Inr client, s)"
  by (simp add: get_redis_client_def)

lemma get_redis_client_calls_cached:
  "redis_client s = Some client \<Longrightarrow>
     get_redis_client_calls exts s = (replicate (length exts) (Inr client), s)"
  by (induction exts) (simp_all add: get_redis_client_cached_call)

text \<open>
  C9: \<^verbatim>\<open>get_redis_client\<close> is idempotent after its first successful call. Once a call
  has returned a client, every later call, under any environment (so also with
  \<^verbatim>\<open>REDIS_URL\<close> changed or unset), returns that same client and leaves the state as it
  is: the cached client stays, and no further read of \<^verbatim>\<open>REDIS_URL\<close> and no further
  construction is recorded.
\<close>

theorem get_redis_client_idempotent:
  assumes "get_redis_client ext s = (Inr client, s')"
  shows "redis_client s' = Some client
         \<and> get_redis_client_calls exts s' = (replicate (length exts) (Inr client), s')"
  using assms by (simp add: get_redis_client_caches get_redis_client_calls_cached)

theorem get_redis_client_idempotent_witness:
  "get_redis_client ext_ok process0 = (Inr (Redis ''redis://cache:6379''), process1)
   \<and> redis_client process1 = Some (Redis ''redis://cache:6379'')
   \<and> get_redis_client_calls [ext_no_url, ext_ok, ext_no_url] process1
       = ([Inr (Redis ''redis://cache:6379''), Inr (Redis ''redis://cache:6379''),
           Inr (Redis ''redis://cache:6379'')], process1)"
proof -
  have first: "get_redis_client ext_ok process0 = (Inr (Redis ''redis://cache:6379''), process1)"
    by (simp add: get_redis_client_def ext_ok_def process0_def process1_def effect_def Let_def)
  from get_redis_client_idempotent [OF first, of "[ext_no_url, ext_ok, ext_no_url]"] first
  show ?thesis by simp
qed


lemma get_redis_client_missing:
  assumes "getenv ext ''REDIS_URL'' = None \<or> getenv ext ''REDIS_URL'' = Some []"
    and "redis_client s = None"
  shows "get_redis_client ext s
         = (Inl (Exn ValueError ''REDIS_URL not configured''), effect (Getenv ''REDIS_URL'') s)"
  using assms by (auto simp: get_redis_client_def Let_def)

lemma do_ping_missing:
  assumes "getenv ext ''REDIS_URL'' = None \<or> getenv ext ''REDIS_URL'' = Some []"
    and "redis_client s = None"
  shows "fst (do_ping ext s) = Inl (Exn ValueError ''REDIS_URL not configured'')"
  by (simp add: do_ping_def get_redis_client_missing [OF assms])

lemma import_infra_outcome:
  "fst (import_infra ext s) = async_openai ext (getenv ext ''OPENAI_API_KEY'')"
  "effects (snd (import_infra ext s)) = effects s @ [Getenv ''OPENAI_API_KEY'']"
  by (simp_all add: import_infra_def effect_def Let_def split: sum.splits)

text \<open>
  C6 (as amended): a missing \<^verbatim>\<open>REDIS_URL\<close> (unset or empty) is a configuration error
  raised on use, not at start-up, and it is not fatal. The module's initialisation reads
  \<^verbatim>\<open>OPENAI_API_KEY\<close> only, and its outcome is that of building the OpenAI client.
  Every call of \<^verbatim>\<open>get_redis_client\<close> made while no client is cached reads
  \<^verbatim>\<open>REDIS_URL\<close> once and raises \<^verbatim>\<open>ValueError("REDIS_URL not configured")\<close>; it builds
  no client, retries nothing and caches nothing, so the next call reads the variable again.
  \<^verbatim>\<open>health_check\<close>, when its breaker lets the ping through, turns the error into the
  status \<^verbatim>\<open>"unhealthy"\<close>.
\<close>

theorem missing_redis_url_raised_on_use:
  "fst (import_infra ext s) = async_openai ext (getenv ext ''OPENAI_API_KEY'')
   \<and> effects (snd (import_infra ext s)) = effects s @ [Getenv ''OPENAI_API_KEY'']
   \<and> ((getenv ext ''REDIS_URL'' = None \<or> getenv ext ''REDIS_URL'' = Some [])
        \<and> redis_client s = None \<longrightarrow>
        get_redis_client ext s
          = (Inl (Exn ValueError ''REDIS_URL not configured''), effect (Getenv ''REDIS_URL'') s)
        \<and> redis_client (snd (get_redis_client ext s)) = None
        \<and> (fst (call (do_ping ext) s) = fst (do_ping ext s) \<longrightarrow>
             fst (health_check call ext s)
               = Inr [(''redis'', ''error''), (''status'', ''unhealthy''),
                      (''error'', ''REDIS_URL not configured'')]))"
  by (simp add: import_infra_outcome get_redis_client_missing do_ping_missing
      health_check_outcome effect_def)

theorem missing_redis_url_raised_on_use_witness:
  "getenv ext_no_url ''REDIS_URL'' = None \<and> redis_client process0 = None
   \<and> fst (redis_call (do_ping ext_no_url) process0) = fst (do_ping ext_no_url process0)
   \<and> get_redis_client ext_no_url process0
       = (Inl (Exn ValueError ''REDIS_URL not configured''),
          process0\<lparr>effects := [Getenv ''REDIS_URL'']\<rparr>)
   \<and> fst (health_check redis_call ext_no_url process0)
       = Inr [(''redis'', ''error''), (''status'', ''unhealthy''),
              (''error'', ''REDIS_URL not configured'')]"
proof -
  have u: "getenv ext_no_url ''REDIS_URL'' = None"
    by (simp add: ext_no_url_def ext_ok_def)
  have c: "redis_client process0 = None"
    by (simp add: process0_def)
  have b: "fst (redis_call (do_ping ext_no_url) process0) = fst (do_ping ext_no_url process0)"
    by (simp add: redis_call_outcome process0_def breaker0_def)
  have e: "effect (Getenv ''REDIS_URL'') process0 = process0\<lparr>effects := [Getenv ''REDIS_URL'']\<rparr>"
    by (simp add: effect_def process0_def)
  from missing_redis_url_raised_on_use [of ext_no_url process0 redis_call] u c b e
  show ?thesis
    by simp
qed

text \<open>
  The claim as first stated, that the missing URL is fatal at start-up, fails: without
  \<^verbatim>\<open>REDIS_URL\<close> the module initialises, \<^verbatim>\<open>health_check\<close> returns a dictionary, and
  once the variable is set a later call of \<^verbatim>\<open>get_redis_client\<close> succeeds.
\<close>

theorem missing_redis_url_fatal_counterexample:
  "getenv ext_no_url ''REDIS_URL'' = None
   \<and> fst (import_infra ext_no_url process0) = Inr ()
   \<and> fst (health_check redis_call ext_no_url (snd (import_infra ext_no_url process0)))
       = Inr [(''redis'', ''error''), (''status'', ''unhealthy''),
              (''error'', ''REDIS_URL not configured'')]
   \<and> fst (get_redis_client ext_no_url process0)
       = Inl (Exn ValueError ''REDIS_URL not configured'')
   \<and> fst (get_redis_client ext_ok (snd (get_redis_client ext_no_url process0)))
       = Inr (Redis ''redis://cache:6379'')"
proof -
  have u: "getenv ext_no_url ''REDIS_URL'' = None"
    by (simp add: ext_no_url_def ext_ok_def)
  have i: "import_infra ext_no_url process0
           = (Inr (), process0\<lparr>effects := [Getenv ''OPENAI_API_KEY'']\<rparr>)"
    by (simp add: import_infra_def effect_def Let_def ext_no_url_def ext_ok_def process0_def)
  have h: "fst (health_check redis_call ext_no_url
                  (process0\<lparr>effects := [Getenv ''OPENAI_API_KEY'']\<rparr>))
       = Inr [(''redis'', ''error''), (''status'', ''unhealthy''),
              (''error'', ''REDIS_URL not configured'')]"
    by (simp add: health_check_outcome redis_call_outcome do_ping_missing u process0_def
        breaker0_def)
  have g: "get_redis_client ext_no_url process0
           = (Inl (Exn ValueError ''REDIS_URL not configured''),
              process0\<lparr>effects := [Getenv ''REDIS_URL'']\<rparr>)"
    by (simp add: get_redis_client_missing u process0_def effect_def)
  have r: "fst (get_redis_client ext_ok (process0\<lparr>effects := [Getenv ''REDIS_URL'']\<rparr>))
           = Inr (Redis ''redis://cache:6379'')"
    by (simp add: get_redis_client_def Let_def effect_def ext_ok_def process0_def)
  show ?thesis
    by (simp add: u i h g r)
qed



section \<open>Properties of the script\<close>

subsection \<open>Traces and effects of the statements\<close>

lemma writes_append [simp]: "writes (xs @ ys) = writes xs @ writes ys"
  by (induction xs rule: writes.induct) simp_all

lemma commands_append [simp]: "commands (xs @ ys) = commands xs @ commands ys"
  by (induction xs rule: commands.induct) simp_all

lemma requests_append [simp]: "requests (xs @ ys) = requests xs @ requests ys"
  by (induction xs rule: requests.induct) simp_all

lemma apply_writes_append [simp]:
  "apply_writes (xs @ ys) f = apply_writes ys (apply_writes xs f)"
  by (induction xs arbitrary: f) auto


lemma after_after [simp]: "after (after w xs) ys = after w (xs @ ys)"
  by (simp add: after_def)

lemma files_after [simp]: "files (after w es) = apply_writes (writes es) (files w)"
  by (simp add: after_def)

lemma trace_after [simp]: "trace (after w es) = trace w @ es"
  by (simp add: after_def)










subsection \<open>The effects of the steps\<close>

lemma infra_path_eq:
  "infra_path = ''/Users/michaelweiss/RAG API/voiceroi-rag-api/app/services/infra.py''"
  by (simp add: infra_path_def path_join_def RAG_API_PATH_def)

lemma main_path_eq: "main_path = ''/Users/michaelweiss/RAG API/voiceroi-rag-api/app/main.py''"
  by (simp add: main_path_def path_join_def RAG_API_PATH_def)

lemma metrics_path_eq:
  "metrics_path = ''/Users/michaelweiss/RAG API/voiceroi-rag-api/app/metrics.py''"
  by (simp add: metrics_path_def path_join_def RAG_API_PATH_def)

lemma backup_neq [simp]: "p @ ''.backup'' \<noteq> p" "p \<noteq> p @ ''.backup''"
  by (auto dest: arg_cong [where f = length])

lemma paths_distinct [simp]:
  "infra_path \<noteq> main_path" "infra_path \<noteq> metrics_path" "main_path \<noteq> metrics_path"
  "main_path \<noteq> infra_path" "metrics_path \<noteq> infra_path" "metrics_path \<noteq> main_path"
  "infra_path @ ''.backup'' \<noteq> main_path" "infra_path @ ''.backup'' \<noteq> metrics_path"
  "main_path @ ''.backup'' \<noteq> infra_path" "main_path @ ''.backup'' \<noteq> metrics_path"
  "metrics_path @ ''.backup'' \<noteq> infra_path" "metrics_path @ ''.backup'' \<noteq> main_path"
  "infra_path \<noteq> main_path @ ''.backup''" "infra_path \<noteq> metrics_path @ ''.backup''"
  "main_path \<noteq> infra_path @ ''.backup''" "main_path \<noteq> metrics_path @ ''.backup''"
  "metrics_path \<noteq> infra_path @ ''.backup''" "metrics_path \<noteq> main_path @ ''.backup''"
  "infra_path @ ''.backup'' \<noteq> main_path @ ''.backup''"
  "infra_path @ ''.backup'' \<noteq> metrics_path @ ''.backup''"
  "main_path @ ''.backup'' \<noteq> metrics_path @ ''.backup''"
  "main_path @ ''.backup'' \<noteq> infra_path @ ''.backup''"
  "metrics_path @ ''.backup'' \<noteq> infra_path @ ''.backup''"
  "metrics_path @ ''.backup'' \<noteq> main_path @ ''.backup''"
  by (simp_all add: infra_path_eq main_path_eq metrics_path_eq)



lemma step1_events_quiet [simp]:
  "writes (step1_events n) = []" "requests (step1_events n) = []"
proof -
  have "writes (take k step1_all) = []" "requests (take k step1_all) = []" for k
    by (simp_all add: step1_all_def take_Cons split: nat.splits)
  then show "writes (step1_events n) = []" "requests (step1_events n) = []"
    by (simp_all add: step1_events_def)
qed






lemma writes_step2 [simp]:
  "writes (step2_events old) =
     (case old of None \<Rightarrow> [] | Some c \<Rightarrow> [(infra_path @ ''.backup'', c)])
     @ [(infra_path, INFRA_PY_FIXED)]"
  by (simp add: step2_events_def split: option.splits)

lemma writes_step3 [simp]:
  "writes (step3_events c) =
     [(main_path @ ''.backup'', c),
      (main_path,
       re_sub version_pattern version_repl
         (if re_search pattern c \<noteq> None
          then re_sub pattern (strip GET_EMBEDDING_FIXED) c
          else if re_search alt_pattern c \<noteq> None
          then re_sub alt_pattern (strip GET_EMBEDDING_FIXED) c
          else c))]"
  by (simp add: step3_events_def)

lemma writes_step4 [simp]:
  "writes (step4_events old) =
     (case old of None \<Rightarrow> [] | Some c \<Rightarrow> [(metrics_path @ ''.backup'', c)])
     @ [(metrics_path, METRICS_PY_FIXED)]"
  by (simp add: step4_events_def split: option.splits)

lemma writes_title_closing [simp]:
  "writes title_events = []" "writes closing_events = []"
  by (simp_all add: title_events_def closing_events_def)

lemma commands_steps [simp]:
  "commands title_events = []" "commands (step2_events old) = []"
  "commands (step3_events c) = []" "commands (step4_events old) = []"
  "commands closing_events = []"
  by (simp_all add: title_events_def closing_events_def step2_events_def step3_events_def
      step4_events_def split: option.splits)

lemma requests_steps [simp]:
  "requests title_events = []" "requests (step2_events old) = []"
  "requests (step3_events c) = []" "requests (step4_events old) = []"
  "requests closing_events = []"
  by (simp_all add: title_events_def closing_events_def step2_events_def step3_events_def
      step4_events_def split: option.splits)









subsection \<open>Programs that only add to the trace\<close>

lemma printed_append [simp]: "printed (xs @ ys) = printed xs @ printed ys"
  by (induction xs rule: printed.induct) simp_all

















subsection \<open>The main program as a whole\<close>











subsection \<open>The claims on the script\<close>


















lemma strip_template:
  \<open>strip GET_EMBEDDING_FIXED =
   ''async def get_embedding(text: str) -> list[float]:'' @ [CHR 10] @ unlines
   [''    """'',
    ''    Get embedding for semantic cache lookup.'',
    ''    Routes through canonical embed_text() which is protected by circuit breaker.'',
    ''    '',
    ''    IMPORTANT: This function MUST call embed_text from infra.py to ensure'',
    ''    all embeddings go through the circuit breaker.'',
    ''    """'',
    ''    from app.services.infra import embed_text''] @ ''    return await embed_text(text)''\<close>
  by code_simp


end
